theory Spec2Isabelle
  imports Main "HOL-Library.List_Lexorder" "HOL-Library.Multiset" "HOL-Library.Sublist"
    "HOL-Library.Word"
begin

section \<open>unify\_pdfs\_by\_feature.py: strings, exceptions and the Python runtime\<close>

text \<open>
  A Python \<open>str\<close> is a sequence of Unicode code points, and \<open>len\<close>, slicing and
  iteration count code points. A character is therefore a natural number (its code point)
  and a string a list of them. With \<open>HOL-Library.List_Lexorder\<close> the order on
  \<open>pystr\<close> is the lexicographic order by code point, which is how Python compares
  strings and therefore how \<open>sorted\<close> orders paths and feature keys.
\<close>

type_synonym pychar = nat
type_synonym pystr = "pychar list"
type_synonym bytes = "8 word list"

definition py :: "string \<Rightarrow> pystr" where
  \<comment> \<open>an ASCII literal of the source as a Python string\<close>
  "py s = map of_char s"

datatype exn = IndexError pystr | TypeError pystr | KeyError pystr | LibError pystr

fun str_of_exn :: "exn \<Rightarrow> pystr" where
  \<comment> \<open>\<open>str(e)\<close>, as the f-string \<open>{e}\<close> formats it\<close>
  "str_of_exn (IndexError m) = m"
| "str_of_exn (TypeError m) = m"
| "str_of_exn (KeyError m) = m"
| "str_of_exn (LibError m) = m"

text \<open>
  The methods of \<open>str\<close> that the program calls are part of the Python runtime, not of
  the repository: \<open>isdigit\<close>, \<open>isalpha\<close> and \<open>isalnum\<close> are tables of the Unicode
  database (on one character), \<open>lower\<close> and \<open>strip\<close> work on whole strings. They are
  parameters of the model; nothing is assumed about them.
\<close>

record pystr_lib =
  str_isdigit :: "pychar \<Rightarrow> bool"
  str_isalpha :: "pychar \<Rightarrow> bool"
  str_isalnum :: "pychar \<Rightarrow> bool"
  str_lower :: "pystr \<Rightarrow> pystr"
  str_strip :: "pystr \<Rightarrow> pystr"

definition py_slice :: "'a list \<Rightarrow> int \<Rightarrow> int \<Rightarrow> 'a list" where
  \<comment> \<open>\<open>xs[i:j]\<close>: a negative bound counts from the end, both bounds are clamped to
      \<open>0..len(xs)\<close>, and the slice is empty when the bounds cross\<close>
  "py_slice xs i j =
     (let n = int (length xs);
          lo = (if i < 0 then max 0 (n + i) else min i n);
          hi = (if j < 0 then max 0 (n + j) else min j n)
      in take (nat (hi - lo)) (drop (nat lo) xs))"

section \<open>Helpers\<close>

text \<open>
  The functions of \<open>os\<close> and \<open>os.path\<close> are parameters as well. The file system is a
  value of an arbitrary type \<open>'w\<close>: a call that reads takes it, a call that writes returns
  the new one, and a call that raises is taken to have changed nothing.
\<close>

record 'w os_lib =
  os_path_basename :: "pystr \<Rightarrow> pystr"
  os_path_dirname :: "pystr \<Rightarrow> pystr"
  os_path_splitext :: "pystr \<Rightarrow> pystr \<times> pystr"
  os_path_join :: "pystr \<Rightarrow> pystr \<Rightarrow> pystr"
  os_path_abspath :: "'w \<Rightarrow> pystr \<Rightarrow> pystr"
  os_path_isfile :: "'w \<Rightarrow> pystr \<Rightarrow> bool"
  os_listdir :: "'w \<Rightarrow> pystr \<Rightarrow> exn + pystr list"
  os_makedirs :: "'w \<Rightarrow> pystr \<Rightarrow> exn + 'w"  \<comment> \<open>with \<open>exist_ok=True\<close>\<close>

definition str_endswith :: "pystr \<Rightarrow> pystr \<Rightarrow> bool" where
  "str_endswith s suf =
     (length suf \<le> length s \<and> drop (length s - length suf) s = suf)"

fun str_join :: "pystr \<Rightarrow> pystr list \<Rightarrow> pystr" where
  "str_join sep [] = []"
| "str_join sep [x] = x"
| "str_join sep (x # y # ys) = x @ sep @ str_join sep (y # ys)"

definition list_pdfs_flat :: "pystr_lib \<Rightarrow> 'w os_lib \<Rightarrow> 'w \<Rightarrow> pystr \<Rightarrow> exn + pystr list" where
  "list_pdfs_flat U S w dir_path =
     (case os_listdir S w dir_path of
        Inl e \<Rightarrow> Inl e
      | Inr names \<Rightarrow>
          Inr (sort (concat (map (\<lambda>name.
                 let full = os_path_join S dir_path name
                 in if os_path_isfile S w full \<and> str_endswith (str_lower U name) (py ''.pdf'')
                    then [full] else []) names))))"

definition stem :: "'w os_lib \<Rightarrow> pystr \<Rightarrow> pystr" where
  "stem S path = (let base = os_path_basename S path in fst (os_path_splitext S base))"

definition apply_filter :: "pystr_lib \<Rightarrow> pystr \<Rightarrow> pystr \<Rightarrow> pystr" where
  "apply_filter U s mode =
     (if mode = py ''digits'' then filter (str_isdigit U) s
      else if mode = py ''letters'' then filter (str_isalpha U) s
      else if mode = py ''alnum'' then filter (str_isalnum U) s
      else s)"

definition range_error :: exn where
  \<comment> \<open>the message has one non-ASCII character, U+00F3\<close>
  "range_error = IndexError
     (py ''Longitud insuficiente en la base de indexaci'' @ [243] @
      py ''n para cubrir el rango [p1..p2].'')"

definition compute_feature ::
  "pystr_lib \<Rightarrow> pystr \<Rightarrow> int \<Rightarrow> int \<Rightarrow> pystr \<Rightarrow> pystr \<Rightarrow> pystr \<Rightarrow> exn + (pystr \<times> pystr)" where
  "compute_feature U name_stem p1 p2 index_on index_filter emit_scope =
     (let base = (if index_on = py ''original'' then name_stem
                  else apply_filter U name_stem index_filter);
          i1 = p1 - 1;
          i2 = p2 - 1
      in if int (length base) \<le> i2 then Inl range_error
         else
           let slice_raw = py_slice base i1 (i2 + 1);
               feature = apply_filter U slice_raw emit_scope;
               feature = (if feature = [] then slice_raw else feature)
           in Inr (feature, base))"

definition sanitize_feature :: "pystr_lib \<Rightarrow> pystr \<Rightarrow> pystr" where
  "sanitize_feature U name =
     (let safe_chars = map (\<lambda>ch. if str_isalnum U ch \<or> ch \<in> set (py ''-_'') then ch
                                  else of_char CHR ''_'') name;
          out = safe_chars
      in if out \<noteq> [] then out else py ''feature'')"

section \<open>Image recompression\<close>

text \<open>
  PyMuPDF (\<open>fitz\<close>) is a parameter too. A document is a value of an arbitrary type \<open>'d\<close>
  and a pixmap one of \<open>'p\<close>; every method that can raise returns a sum, and a method that
  changes the document returns the changed document. A method that raises is taken to
  have left the document as it was. \<open>xref_length\<close> of an open document and the attribute
  \<open>n\<close> of a pixmap are plain reads. \<open>xref_stream\<close> returns \<open>None\<close> for an object
  without a stream.
\<close>

record save_opts =
  sv_garbage :: nat
  sv_clean :: bool
  sv_deflate :: bool
  sv_deflate_images :: bool
  sv_deflate_fonts :: bool
  sv_use_objstms :: nat

record ('w, 'd, 'p) fitz_lib =
  fitz_open_empty :: "'d"
  fitz_open :: "'w \<Rightarrow> pystr \<Rightarrow> exn + 'd"
  doc_insert_pdf :: "'d \<Rightarrow> 'd \<Rightarrow> exn + 'd"  \<comment> \<open>with links, annots and widgets off\<close>
  doc_xref_length :: "'d \<Rightarrow> int"
  doc_xref_get_key :: "'d \<Rightarrow> int \<Rightarrow> pystr \<Rightarrow> exn + (pystr \<times> pystr)"
  doc_xref_stream :: "'d \<Rightarrow> int \<Rightarrow> exn + bytes option"
  doc_update_stream :: "'d \<Rightarrow> int \<Rightarrow> bytes \<Rightarrow> exn + 'd"
  doc_scrub :: "'d \<Rightarrow> exn + 'd"
  doc_subset_fonts :: "'d \<Rightarrow> exn + 'd"
  doc_save :: "'w \<Rightarrow> 'd \<Rightarrow> pystr \<Rightarrow> save_opts \<Rightarrow> exn + 'w"  \<comment> \<open>with \<open>incremental=False\<close>\<close>
  fitz_Pixmap :: "'d \<Rightarrow> int \<Rightarrow> exn + 'p"
  fitz_Pixmap_csRGB :: "'p \<Rightarrow> exn + 'p"
  pix_n :: "'p \<Rightarrow> int"
  pix_tobytes_jpeg :: "'p \<Rightarrow> int \<Rightarrow> exn + bytes"

definition py_len :: "bytes option \<Rightarrow> exn + int" where
  \<comment> \<open>\<open>len(x)\<close> of what \<open>xref_stream\<close> returned: \<open>len(None)\<close> raises \<open>TypeError\<close>\<close>
  "py_len x = (case x of None \<Rightarrow> Inl (TypeError (py ''object of type 'NoneType' has no len()''))
                       | Some b \<Rightarrow> Inr (int (length b)))"

text \<open>
  The body of the loop over the xrefs. Each \<open>try\<close> of the source is a \<open>case\<close> whose
  \<open>Inl\<close> branch is the \<open>except Exception: continue\<close> (or \<open>pass\<close>); the state is the
  document and the counter \<open>replaced\<close>.
\<close>

definition recompress_xref ::
  "('w, 'd, 'p) fitz_lib \<Rightarrow> int \<Rightarrow> int \<Rightarrow> bool \<Rightarrow> int \<Rightarrow> 'd \<times> int \<Rightarrow> 'd \<times> int" where
  "recompress_xref F quality min_bytes only_if_smaller xref = (\<lambda>(doc, replaced).
     case doc_xref_get_key F doc xref (py ''Subtype'') of
       Inl _ \<Rightarrow> (doc, replaced)
     | Inr t \<Rightarrow>
        if snd t \<noteq> py ''/Image'' then (doc, replaced)
        else
         (case (case doc_xref_stream F doc xref of Inl e \<Rightarrow> Inl e | Inr b \<Rightarrow> py_len b) of
            Inl _ \<Rightarrow> (doc, replaced)
          | Inr orig_bytes \<Rightarrow>
             if orig_bytes < min_bytes then (doc, replaced)
             else
              (case fitz_Pixmap F doc xref of
                 Inl _ \<Rightarrow> (doc, replaced)
               | Inr pix0 \<Rightarrow>
                  (case (if pix_n F pix0 \<ge> 5 then fitz_Pixmap_csRGB F pix0 else Inr pix0) of
                     Inl _ \<Rightarrow> (doc, replaced)
                   | Inr pix \<Rightarrow>
                      (case pix_tobytes_jpeg F pix quality of
                         Inl _ \<Rightarrow> (doc, replaced)
                       | Inr new_bytes \<Rightarrow>
                          if (\<not> only_if_smaller) \<or> int (length new_bytes) < orig_bytes
                          then (case doc_update_stream F doc xref new_bytes of
                                  Inl _ \<Rightarrow> (doc, replaced)
                                | Inr doc' \<Rightarrow> (doc', replaced + 1))
                          else (doc, replaced))))))"

definition recompress_images_in_doc ::
  "('w, 'd, 'p) fitz_lib \<Rightarrow> 'd \<Rightarrow> int \<Rightarrow> int \<Rightarrow> bool \<Rightarrow> 'd \<times> int" where
  "recompress_images_in_doc F doc quality min_kb only_if_smaller =
     (let replaced = 0;
          xref_len = doc_xref_length F doc;
          min_bytes = min_kb * 1024
      in fold (recompress_xref F quality min_bytes only_if_smaller) [1 .. xref_len - 1]
           (doc, replaced))"

section \<open>Merging a group and optimising the result\<close>

datatype 'w outcome = Returned 'w | Raised exn 'w

fun insert_sources ::
  "('w, 'd, 'p) fitz_lib \<Rightarrow> 'w \<Rightarrow> 'd \<Rightarrow> pystr list \<Rightarrow> exn + 'd" where
  \<comment> \<open>the loop \<open>for src in ...: with fitz.open(src) as d: doc_out.insert_pdf(d, ...)\<close>\<close>
  "insert_sources F w doc_out [] = Inr doc_out"
| "insert_sources F w doc_out (src # rest) =
     (case fitz_open F w src of
        Inl e \<Rightarrow> Inl e
      | Inr d \<Rightarrow>
         (case doc_insert_pdf F doc_out d of
            Inl e \<Rightarrow> Inl e
          | Inr doc_out' \<Rightarrow> insert_sources F w doc_out' rest))"

definition save_none :: save_opts where
  "save_none = \<lparr> sv_garbage = 0, sv_clean = False, sv_deflate = False,
       sv_deflate_images = False, sv_deflate_fonts = False, sv_use_objstms = 0 \<rparr>"

definition save_light :: save_opts where
  "save_light = \<lparr> sv_garbage = 3, sv_clean = True, sv_deflate = True,
       sv_deflate_images = False, sv_deflate_fonts = False, sv_use_objstms = 1 \<rparr>"

definition save_full :: save_opts where
  "save_full = \<lparr> sv_garbage = 4, sv_clean = True, sv_deflate = True,
       sv_deflate_images = True, sv_deflate_fonts = True, sv_use_objstms = 1 \<rparr>"

text \<open>
  \<open>unify_group\<close> returns nothing: its result is the file system it leaves and, when it
  raises, the exception. The \<open>[IMG]\<close> line it prints and the closing of the documents
  are not modelled. \<open>save_merged\<close> is the part of \<open>unify_group\<close> after the merge loop.
\<close>

definition save_merged ::
  "'w os_lib \<Rightarrow> ('w, 'd, 'p) fitz_lib \<Rightarrow> 'w \<Rightarrow> pystr \<Rightarrow> pystr \<Rightarrow> bool \<Rightarrow>
     int \<Rightarrow> int \<Rightarrow> bool \<Rightarrow> 'd \<Rightarrow> 'w outcome" where
  "save_merged S F w dest_pdf optimize jpeg_recompress jpeg_quality jpeg_min_kb
       jpeg_only_if_smaller merged =
     (let doc_out = (if jpeg_recompress
                     then fst (recompress_images_in_doc F merged jpeg_quality jpeg_min_kb
                                 jpeg_only_if_smaller)
                     else merged)
      in case os_makedirs S w (os_path_dirname S dest_pdf) of
           Inl e \<Rightarrow> Raised e w
         | Inr w1 \<Rightarrow>
            (if optimize = py ''none'' then
               (case doc_save F w1 doc_out dest_pdf save_none of
                  Inl e \<Rightarrow> Raised e w1 | Inr w2 \<Rightarrow> Returned w2)
             else if optimize = py ''light'' then
               (case doc_save F w1 doc_out dest_pdf save_light of
                  Inl e \<Rightarrow> Raised e w1 | Inr w2 \<Rightarrow> Returned w2)
             else
               (case doc_scrub F doc_out of
                  Inl e \<Rightarrow> Raised e w1
                | Inr scrubbed \<Rightarrow>
                   (case doc_subset_fonts F scrubbed of
                      Inl e \<Rightarrow> Raised e w1
                    | Inr subsetted \<Rightarrow>
                       (case doc_save F w1 subsetted dest_pdf save_full of
                          Inl e \<Rightarrow> Raised e w1 | Inr w2 \<Rightarrow> Returned w2)))))"

definition unify_group ::
  "'w os_lib \<Rightarrow> ('w, 'd, 'p) fitz_lib \<Rightarrow> 'w \<Rightarrow> pystr \<Rightarrow> pystr list \<Rightarrow> pystr \<Rightarrow> bool \<Rightarrow>
     int \<Rightarrow> int \<Rightarrow> bool \<Rightarrow> 'w outcome" where
  "unify_group S F w dest_pdf source_paths optimize jpeg_recompress jpeg_quality jpeg_min_kb
       jpeg_only_if_smaller =
     (case insert_sources F w (fitz_open_empty F) (sort source_paths) of
        Inl e \<Rightarrow> Raised e w
      | Inr merged \<Rightarrow>
         save_merged S F w dest_pdf optimize jpeg_recompress jpeg_quality jpeg_min_kb
           jpeg_only_if_smaller merged)"

section \<open>The worker\<close>

definition worker_unify ::
  "pystr_lib \<Rightarrow> 'w os_lib \<Rightarrow> ('w, 'd, 'p) fitz_lib \<Rightarrow> 'w \<Rightarrow> pystr \<Rightarrow> pystr \<Rightarrow> pystr list \<Rightarrow>
     pystr \<Rightarrow> bool \<Rightarrow> int \<Rightarrow> int \<Rightarrow> bool \<Rightarrow> (pystr \<times> int \<times> pystr) \<times> 'w" where
  "worker_unify U S F w out_dir feat paths optimize jpeg_recompress jpeg_quality jpeg_min_kb
       jpeg_only_if_smaller =
     (let safe_feat = sanitize_feature U feat;
          dest_path = os_path_join S out_dir (safe_feat @ py ''.pdf'')
      in case unify_group S F w dest_path paths optimize jpeg_recompress jpeg_quality jpeg_min_kb
                jpeg_only_if_smaller of
           Returned w' \<Rightarrow> ((feat, int (length paths), py ''OK''), w')
         | Raised e w' \<Rightarrow> ((feat, int (length paths), py ''ERROR: '' @ str_of_exn e), w'))"

section \<open>Main: plan, confirmation, execution\<close>

record args =
  arg_target_dir :: pystr
  arg_p1 :: int
  arg_p2 :: int
  arg_index_on :: pystr
  arg_index_filter :: pystr
  arg_emit_scope :: pystr
  arg_out_dir_name :: pystr
  arg_jobs :: int
  arg_optimize :: pystr
  arg_serial :: bool
  arg_jpeg_recompress :: pystr
  arg_jpeg_quality :: int
  arg_jpeg_min_kb :: int
  arg_jpeg_only_if_smaller :: bool

text \<open>
  The dictionary \<open>groups\<close> is an association list in insertion order with one entry
  for each key, as a Python \<open>dict\<close> is.
\<close>

type_synonym groups = "(pystr \<times> pystr list) list"

fun setdefault_append :: "groups \<Rightarrow> pystr \<Rightarrow> pystr \<Rightarrow> groups" where
  \<comment> \<open>\<open>groups.setdefault(feat, []).append(f)\<close>\<close>
  "setdefault_append [] feat f = [(feat, [f])]"
| "setdefault_append ((k, fs) # rest) feat f =
     (if k = feat then (k, fs @ [f]) # rest else (k, fs) # setdefault_append rest feat f)"

definition scan_pdf :: "pystr_lib \<Rightarrow> 'w os_lib \<Rightarrow> args \<Rightarrow> pystr \<Rightarrow> groups \<times> int \<Rightarrow> groups \<times> int" where
  \<comment> \<open>the body of the discovery loop; the progress bar is not modelled\<close>
  "scan_pdf U S a f = (\<lambda>(groups, skipped).
     let s = stem S f
     in case compute_feature U s (arg_p1 a) (arg_p2 a) (arg_index_on a) (arg_index_filter a)
               (arg_emit_scope a) of
          Inl _ \<Rightarrow> (groups, skipped + 1)
        | Inr (feat, _) \<Rightarrow> (setdefault_append groups feat f, skipped))"

definition scan_pdfs :: "pystr_lib \<Rightarrow> 'w os_lib \<Rightarrow> args \<Rightarrow> pystr list \<Rightarrow> groups \<times> int" where
  "scan_pdfs U S a pdfs = fold (scan_pdf U S a) pdfs ([], 0)"

text \<open>
  What the run prints, as far as it is modelled: the error of an empty directory, the
  plan (CSV of the planned files, their number, the number of keys, the number of skipped
  files), the cancellation, the line of a group, the last line, and the traceback of an
  exception that nothing catches (with which the interpreter exits with status 1).
\<close>

datatype line =
    Error_no_pdfs
  | Plan pystr int int int
  | Cancelled
  | Ok_line pystr int
  | Warn_line pystr int pystr
  | Fin int
  | Traceback exn

datatype 'w finished = Finished (exit_status: int) (world: 'w) (console: "line list")

definition dict_get :: "groups \<Rightarrow> pystr \<Rightarrow> exn + pystr list" where
  "dict_get groups feat = (case map_of groups feat of None \<Rightarrow> Inl (KeyError feat) | Some paths \<Rightarrow> Inr paths)"

text \<open>
  The serial loop discards what \<open>worker_unify\<close> returns and prints the \<open>[OK]\<close> line.
  Its \<open>except\<close> branch prints the \<open>[WARN]\<close> line for an exception of \<open>worker_unify\<close>,
  which has none.
\<close>

fun serial_loop ::
  "pystr_lib \<Rightarrow> 'w os_lib \<Rightarrow> ('w, 'd, 'p) fitz_lib \<Rightarrow> args \<Rightarrow> pystr \<Rightarrow> groups \<Rightarrow> 'w \<Rightarrow> pystr list \<Rightarrow>
     exn option \<times> 'w \<times> line list" where
  "serial_loop U S F a out_dir groups w [] = (None, w, [])"
| "serial_loop U S F a out_dir groups w (feat # rest) =
     (case dict_get groups feat of
        Inl e \<Rightarrow> (Some e, w, [])
      | Inr paths \<Rightarrow>
         let (result, w1) = worker_unify U S F w out_dir feat paths (arg_optimize a)
                              (arg_jpeg_recompress a = py ''on'') (arg_jpeg_quality a)
                              (arg_jpeg_min_kb a) (arg_jpeg_only_if_smaller a);
             (raised, w2, lines) = serial_loop U S F a out_dir groups w1 rest
         in (raised, w2, Ok_line feat (int (length paths)) # lines))"

text \<open>
  The pool: the workers are separate processes, and \<open>as_completed\<close> yields their results
  in the order in which they finish. The model runs the workers one after the other in
  that order, which is its parameter \<open>completed\<close> (the keys in the order of completion,
  a permutation of the keys submitted).
\<close>

fun parallel_loop ::
  "pystr_lib \<Rightarrow> 'w os_lib \<Rightarrow> ('w, 'd, 'p) fitz_lib \<Rightarrow> args \<Rightarrow> pystr \<Rightarrow> groups \<Rightarrow> 'w \<Rightarrow> pystr list \<Rightarrow>
     exn option \<times> 'w \<times> line list" where
  "parallel_loop U S F a out_dir groups w [] = (None, w, [])"
| "parallel_loop U S F a out_dir groups w (key # rest) =
     (case dict_get groups key of
        Inl e \<Rightarrow> (Some e, w, [])
      | Inr paths \<Rightarrow>
         let ((feat, count, status), w1) = worker_unify U S F w out_dir key paths (arg_optimize a)
                              (arg_jpeg_recompress a = py ''on'') (arg_jpeg_quality a)
                              (arg_jpeg_min_kb a) (arg_jpeg_only_if_smaller a);
             (raised, w2, lines) = parallel_loop U S F a out_dir groups w1 rest
         in (raised, w2,
             (if status \<noteq> py ''OK'' then Warn_line feat count status else Ok_line feat count)
             # lines))"

definition main_stage2 ::
  "pystr_lib \<Rightarrow> 'w os_lib \<Rightarrow> ('w, 'd, 'p) fitz_lib \<Rightarrow> (pystr list \<Rightarrow> pystr list) \<Rightarrow> args \<Rightarrow>
     pystr \<Rightarrow> groups \<Rightarrow> line list \<Rightarrow> 'w \<Rightarrow> 'w finished" where
  "main_stage2 U S F completed a out_dir groups printed w =
     (case os_makedirs S w out_dir of
        Inl e \<Rightarrow> Finished 1 w (printed @ [Traceback e])
      | Inr w1 \<Rightarrow>
         let feats_sorted = sort (map fst groups);
             total_groups = int (length feats_sorted);
             (raised, w2, lines) =
               (if arg_serial a \<or> total_groups = 0
                then serial_loop U S F a out_dir groups w1 feats_sorted
                else parallel_loop U S F a out_dir groups w1 (completed feats_sorted))
         in (case raised of
               Some e \<Rightarrow> Finished 1 w2 (printed @ lines @ [Traceback e])
             | None \<Rightarrow> Finished 0 w2 (printed @ lines @ [Fin total_groups])))"

text \<open>
  \<open>main\<close> after \<open>parse_args\<close>: \<open>a\<close> are the parsed arguments, \<open>typed\<close> is the line
  that \<open>input()\<close> returns at the prompt and \<open>w\<close> the file system at the start.
\<close>

definition main ::
  "pystr_lib \<Rightarrow> 'w os_lib \<Rightarrow> ('w, 'd, 'p) fitz_lib \<Rightarrow> (pystr list \<Rightarrow> pystr list) \<Rightarrow> args \<Rightarrow>
     pystr \<Rightarrow> 'w \<Rightarrow> 'w finished" where
  "main U S F completed a typed w =
     (let target_dir = os_path_abspath S w (arg_target_dir a);
          out_dir = os_path_join S target_dir (arg_out_dir_name a)
      in case list_pdfs_flat U S w target_dir of
           Inl e \<Rightarrow> Finished 1 w [Traceback e]
         | Inr pdfs \<Rightarrow>
            if pdfs = [] then Finished 1 w [Error_no_pdfs]
            else
              let (groups, skipped) = scan_pdfs U S a pdfs;
                  planned_outputs = map (\<lambda>feat. sanitize_feature U feat @ py ''.pdf'')
                                      (sort (map fst groups));
                  planned_csv = str_join (py '','') planned_outputs;
                  printed = [Plan planned_csv (int (length planned_outputs))
                               (int (length groups)) skipped];
                  resp = str_strip U typed
              in if str_lower U resp \<notin> {py ''s'', py ''y''}
                 then Finished 0 w (printed @ [Cancelled])
                 else main_stage2 U S F completed a out_dir groups printed w)"

text \<open>
  An ASCII instance of the runtime's string methods, for evaluating the definitions on
  concrete inputs: the classification of the code points below 128 as Python has it, no
  character above, \<open>lower\<close> on \<open>A..Z\<close> and \<open>strip\<close> of the ASCII whitespace.
\<close>

definition ascii_isdigit :: "pychar \<Rightarrow> bool" where
  "ascii_isdigit c = (48 \<le> c \<and> c \<le> 57)"

definition ascii_isalpha :: "pychar \<Rightarrow> bool" where
  "ascii_isalpha c = ((65 \<le> c \<and> c \<le> 90) \<or> (97 \<le> c \<and> c \<le> 122))"

definition ascii_isspace :: "pychar \<Rightarrow> bool" where
  "ascii_isspace c = ((9 \<le> c \<and> c \<le> 13) \<or> (28 \<le> c \<and> c \<le> 32))"

definition ascii_lib :: pystr_lib where
  "ascii_lib =
     \<lparr> str_isdigit = ascii_isdigit,
       str_isalpha = ascii_isalpha,
       str_isalnum = (\<lambda>c. ascii_isalpha c \<or> ascii_isdigit c),
       str_lower = map (\<lambda>c. if 65 \<le> c \<and> c \<le> 90 then c + 32 else c),
       str_strip = (\<lambda>s. rev (dropWhile ascii_isspace (rev (dropWhile ascii_isspace s)))) \<rparr>"


section \<open>Notions for stating the properties\<close>

definition feature_key :: "pystr_lib \<Rightarrow> 'w os_lib \<Rightarrow> args \<Rightarrow> pystr \<Rightarrow> pystr option" where
  \<comment> \<open>the key that the extractor gives a discovered file under the arguments of the run,
      \<open>None\<close> when the extractor raises\<close>
  "feature_key U S a f =
     (case compute_feature U (stem S f) (arg_p1 a) (arg_p2 a) (arg_index_on a) (arg_index_filter a)
             (arg_emit_scope a) of
        Inl _ \<Rightarrow> None
      | Inr (feat, _) \<Rightarrow> Some feat)"

definition group_sizes :: "groups \<Rightarrow> int" where
  "group_sizes groups = (\<Sum>(k, fs) \<leftarrow> groups. int (length fs))"

text \<open>
  \<open>stream_updates F ok d ups d'\<close>: the document \<open>d'\<close> is what the calls
  \<open>update_stream(x, new)\<close> for the pairs \<open>(x, new)\<close> of \<open>ups\<close>, made in this order
  and all successful, leave of \<open>d\<close>, and each call satisfied \<open>ok\<close> on the document
  it was made on.
\<close>

inductive stream_updates ::
  "('w, 'd, 'p) fitz_lib \<Rightarrow> ('d \<Rightarrow> int \<Rightarrow> bytes \<Rightarrow> bool) \<Rightarrow> 'd \<Rightarrow> (int \<times> bytes) list \<Rightarrow> 'd \<Rightarrow> bool"
  for F :: "('w, 'd, 'p) fitz_lib" and ok :: "'d \<Rightarrow> int \<Rightarrow> bytes \<Rightarrow> bool" where
  no_update: "stream_updates F ok d [] d"
| update: "ok d x new \<Longrightarrow> doc_update_stream F d x new = Inr d1 \<Longrightarrow> stream_updates F ok d1 ups d'
     \<Longrightarrow> stream_updates F ok d ((x, new) # ups) d'"

definition replacement_allowed ::
  "('w, 'd, 'p) fitz_lib \<Rightarrow> int \<Rightarrow> bool \<Rightarrow> 'd \<Rightarrow> int \<Rightarrow> bytes \<Rightarrow> bool" where
  \<comment> \<open>the size policy: the object has a stream of at least \<open>min_bytes\<close> bytes and, when
      \<open>only_if_smaller\<close> is set, the new stream is strictly shorter\<close>
  "replacement_allowed F min_bytes only_if_smaller d x new =
     (case doc_xref_stream F d x of
        Inr (Some orig) \<Rightarrow>
          min_bytes \<le> int (length orig) \<and> (only_if_smaller \<longrightarrow> length new < length orig)
      | _ \<Rightarrow> False)"

section \<open>A small file system and PDF library for evaluating the definitions\<close>

text \<open>
  Paths are separated by \<open>/\<close> and the extension starts at the last dot. A file is a
  readable PDF (\<open>Some\<close> of its document) or something that cannot be opened
  (\<open>None\<close>); the second component lists the directories created.
\<close>

type_synonym demo_doc = "bytes list"
type_synonym demo_world = "(pystr \<times> demo_doc option) list \<times> pystr list"

definition demo_basename :: "pystr \<Rightarrow> pystr" where
  "demo_basename p = rev (takeWhile (\<lambda>c. c \<noteq> 47) (rev p))"

definition demo_dirname :: "pystr \<Rightarrow> pystr" where
  "demo_dirname p = rev (drop 1 (dropWhile (\<lambda>c. c \<noteq> 47) (rev p)))"

definition demo_splitext :: "pystr \<Rightarrow> pystr \<times> pystr" where
  "demo_splitext b =
     (if 46 \<in> set b
      then (rev (drop 1 (dropWhile (\<lambda>c. c \<noteq> 46) (rev b))),
            46 # rev (takeWhile (\<lambda>c. c \<noteq> 46) (rev b)))
      else (b, []))"

definition demo_os :: "demo_world os_lib" where
  "demo_os =
     \<lparr> os_path_basename = demo_basename,
       os_path_dirname = demo_dirname,
       os_path_splitext = demo_splitext,
       os_path_join = (\<lambda>a b. a @ [47] @ b),
       os_path_abspath = (\<lambda>w p. p),
       os_path_isfile = (\<lambda>w p. map_of (fst w) p \<noteq> None),
       os_listdir = (\<lambda>w d. Inr (map demo_basename
                       (filter (\<lambda>p. demo_dirname p = d) (map fst (fst w))))),
       os_makedirs = (\<lambda>w d. Inr (fst w, if d \<in> set (snd w) then snd w else d # snd w)) \<rparr>"

definition demo_args :: args where
  "demo_args =
     \<lparr> arg_target_dir = py ''d'', arg_p1 = 1, arg_p2 = 2, arg_index_on = py ''original'',
       arg_index_filter = py ''digits'', arg_emit_scope = py ''letters'',
       arg_out_dir_name = py ''out'', arg_jobs = 2, arg_optimize = py ''light'',
       arg_serial = True, arg_jpeg_recompress = py ''on'', arg_jpeg_quality = 2,
       arg_jpeg_min_kb = 0, arg_jpeg_only_if_smaller = True \<rparr>"

text \<open>
  In the small PDF library a document is the list of the streams of its objects (the
  object with xref \<open>k\<close> is the \<open>k\<close>-th), every object is an image, a stream that starts
  with the byte 0 cannot be decoded, a pixmap is its stream, and the JPEG of a pixmap at
  quality \<open>q\<close> is its first \<open>q\<close> bytes. Saving a document adds the file.
\<close>

definition demo_fitz :: "(demo_world, demo_doc, bytes) fitz_lib" where
  "demo_fitz =
     \<lparr> fitz_open_empty = [],
       fitz_open = (\<lambda>w p. case map_of (fst w) p of
                       Some (Some d) \<Rightarrow> Inr d
                     | _ \<Rightarrow> Inl (LibError (py ''cannot open''))),
       doc_insert_pdf = (\<lambda>d s. Inr (d @ s)),
       doc_xref_length = (\<lambda>d. int (length d) + 1),
       doc_xref_get_key = (\<lambda>d x k.
          if 1 \<le> x \<and> x \<le> int (length d)
          then Inr (py ''name'', if k = py ''Subtype'' then py ''/Image'' else py ''null'')
          else Inl (LibError (py ''bad xref''))),
       doc_xref_stream = (\<lambda>d x.
          if 1 \<le> x \<and> x \<le> int (length d) then Inr (Some (d ! nat (x - 1)))
          else Inl (LibError (py ''bad xref''))),
       doc_update_stream = (\<lambda>d x b.
          if 1 \<le> x \<and> x \<le> int (length d) then Inr (d[nat (x - 1) := b])
          else Inl (LibError (py ''bad xref''))),
       doc_scrub = Inr,
       doc_subset_fonts = Inr,
       doc_save = (\<lambda>w d p opts. Inr ((p, Some d) # fst w, snd w)),
       fitz_Pixmap = (\<lambda>d x.
          if 1 \<le> x \<and> x \<le> int (length d) \<and> take 1 (d ! nat (x - 1)) \<noteq> [0]
          then Inr (d ! nat (x - 1))
          else Inl (LibError (py ''cannot decode''))),
       fitz_Pixmap_csRGB = Inr,
       pix_n = (\<lambda>p. 3),
       pix_tobytes_jpeg = (\<lambda>p q. Inr (take (nat q) p)) \<rparr>"

definition demo_world0 :: demo_world where
  \<comment> \<open>a directory \<open>d\<close> with four PDFs and a file \<open>x9.pdf\<close> that cannot be opened\<close>
  "demo_world0 =
     ([(py ''d/b1.pdf'', Some [[2, 2]]), (py ''d/a1.pdf'', Some [[1, 1, 1]]),
       (py ''d/a2.pdf'', Some [[3]]), (py ''d/x9.pdf'', None), (py ''d/7.pdf'', Some [[7]])], [])"

section \<open>Properties of the feature extractor and the sanitizer\<close>

lemma take_drop_positions:
  "m + n \<le> length xs \<Longrightarrow> take n (drop m xs) = map (\<lambda>k. xs ! k) [m ..< m + n]"
  by (rule nth_equalityI) (simp_all add: add.commute)

lemma py_slice_positions:
  assumes "0 \<le> i" "i \<le> j" "j \<le> int (length xs)"
  shows "py_slice xs i j = map (\<lambda>k. xs ! k) [nat i ..< nat j]"
proof -
  have a: "nat i + nat (j - i) = nat j" using assms by linarith
  then have b: "nat i + nat (j - i) \<le> length xs" using assms by linarith
  have "py_slice xs i j = take (nat (j - i)) (drop (nat i) xs)"
    using assms by (simp add: py_slice_def Let_def min_def)
  then show ?thesis using take_drop_positions [OF b] a by simp
qed

text \<open>
  C2. \<open>compute_feature\<close> raises, and what it raises is an \<open>IndexError\<close>, if and only if
  the indexing basis (the base name, or the base name filtered by \<open>index_filter\<close> when
  \<open>index_on\<close> is not \<open>original\<close>) is strictly shorter than \<open>p2\<close>. This holds for all
  integers \<open>p1\<close> and \<open>p2\<close>, in particular for \<open>1 \<le> p1 \<le> p2\<close>. The base name \<open>7\<close>
  with \<open>p1 = 1\<close>, \<open>p2 = 2\<close> and the basis \<open>original\<close> raises it.
\<close>

theorem compute_feature_error_iff:
  "((\<exists>m. compute_feature U name_stem p1 p2 index_on index_filter emit_scope = Inl (IndexError m))
      \<longleftrightarrow> int (length (if index_on = py ''original'' then name_stem
                           else apply_filter U name_stem index_filter)) < p2)
   \<and> (isl (compute_feature U name_stem p1 p2 index_on index_filter emit_scope)
      \<longleftrightarrow> int (length (if index_on = py ''original'' then name_stem
                           else apply_filter U name_stem index_filter)) < p2)
   \<and> compute_feature U (py ''7'') 1 2 (py ''original'') index_filter emit_scope = Inl range_error"
  by (auto simp add: compute_feature_def Let_def range_error_def py_def)

theorem compute_feature_error_iff_witness:
  "isl (compute_feature ascii_lib (py ''ab12'') 2 3 (py ''filtered'') (py ''digits'') (py ''all''))
   \<and> \<not> isl (compute_feature ascii_lib (py ''ab12'') 2 3 (py ''original'') (py ''digits'') (py ''all''))
   \<and> compute_feature ascii_lib (py ''7'') 1 2 (py ''original'') (py ''digits'') (py ''all'')
       = Inl range_error"
  using compute_feature_error_iff [of ascii_lib "py ''ab12''" 2 3 "py ''filtered''" "py ''digits''" "py ''all''"]
    compute_feature_error_iff [of ascii_lib "py ''ab12''" 2 3 "py ''original''" "py ''digits''" "py ''all''"]
  by (simp add: py_def apply_filter_def ascii_lib_def ascii_isdigit_def)

text \<open>
  C9. When \<open>1 \<le> p1 \<le> p2\<close> and the indexing basis has at least \<open>p2\<close> characters,
  \<open>compute_feature\<close> returns a key that is not empty: the characters at the positions
  \<open>p1..p2\<close> of the basis (counted from 1) filtered by \<open>emit_scope\<close> when that leaves
  something, and those \<open>p2 - p1 + 1\<close> characters themselves otherwise. The second
  component of the result is the basis.
\<close>

theorem compute_feature_key:
  assumes "1 \<le> p1" "p1 \<le> p2"
    and "base = (if index_on = py ''original'' then name_stem
                 else apply_filter U name_stem index_filter)"
    and "p2 \<le> int (length base)"
    and "raw = map (\<lambda>k. base ! k) [nat p1 - 1 ..< nat p2]"
  shows "\<exists>key. compute_feature U name_stem p1 p2 index_on index_filter emit_scope = Inr (key, base)
           \<and> key \<noteq> []
           \<and> key = (if apply_filter U raw emit_scope \<noteq> [] then apply_filter U raw emit_scope
                    else raw)
           \<and> length raw = nat (p2 - p1 + 1) \<and> 1 \<le> length raw"
proof -
  have s: "py_slice base (p1 - 1) (p2 - 1 + 1) = raw"
    using assms py_slice_positions [of "p1 - 1" p2 base]
    by (simp add: nat_diff_distrib')
  have l: "length raw = nat (p2 - p1 + 1)" "1 \<le> length raw"
    using assms by (auto simp: nat_diff_distrib')
  then have ne: "raw \<noteq> []" by auto
  have "\<not> int (length base) \<le> p2 - 1" using assms by simp
  then show ?thesis
    using s l ne assms(3) by (auto simp add: compute_feature_def Let_def)
qed

theorem compute_feature_key_witness:
  "(1::int) \<le> 2 \<and> (2::int) \<le> 3 \<and> (3::int) \<le> int (length (py ''a12b''))
   \<and> compute_feature ascii_lib (py ''a12b'') 2 3 (py ''original'') (py ''digits'') (py ''letters'')
       = Inr (py ''12'', py ''a12b'')
   \<and> compute_feature ascii_lib (py ''a12b'') 2 3 (py ''original'') (py ''digits'') (py ''digits'')
       = Inr (py ''12'', py ''a12b'')
   \<and> compute_feature ascii_lib (py ''a12b'') 3 4 (py ''original'') (py ''digits'') (py ''letters'')
       = Inr (py ''b'', py ''a12b'')"
  using compute_feature_key [of 2 3 "py ''a12b''" "py ''original''" "py ''a12b''" ascii_lib
      "py ''digits''" "py ''12''" "py ''letters''"]
    compute_feature_key [of 2 3 "py ''a12b''" "py ''original''" "py ''a12b''" ascii_lib
      "py ''digits''" "py ''12''" "py ''digits''"]
    compute_feature_key [of 3 4 "py ''a12b''" "py ''original''" "py ''a12b''" ascii_lib
      "py ''digits''" "py ''2b''" "py ''letters''"]
  by (simp add: py_def apply_filter_def ascii_lib_def ascii_isdigit_def ascii_isalpha_def
      upt_rec numeral_eq_Suc)

text \<open>
  C10. \<open>sanitize_feature\<close> keeps every character that is alphanumeric, a hyphen or an
  underscore and replaces every other character by an underscore. On a name that is not
  empty it returns that string, which has the length of the name and consists of
  alphanumeric characters, hyphens and underscores only; the placeholder \<open>feature\<close> is
  returned exactly when the mapped string is empty, which is exactly when the name is empty.
\<close>

theorem sanitize_feature_spec:
  "sanitize_feature U name =
     (if name = [] then py ''feature''
      else map (\<lambda>ch. if str_isalnum U ch \<or> ch = of_char CHR ''-'' \<or> ch = of_char CHR ''_''
                      then ch else of_char CHR ''_'') name)
   \<and> (name \<noteq> [] \<longrightarrow> length (sanitize_feature U name) = length name
        \<and> (\<forall>c \<in> set (sanitize_feature U name).
              str_isalnum U c \<or> c = of_char CHR ''-'' \<or> c = of_char CHR ''_''))
   \<and> (map (\<lambda>ch. if str_isalnum U ch \<or> ch \<in> set (py ''-_'') then ch
                  else of_char CHR ''_'') name = [] \<longleftrightarrow> name = [])"
  by (auto simp add: sanitize_feature_def Let_def py_def)

theorem sanitize_feature_spec_witness:
  "sanitize_feature ascii_lib (py ''a b-c_d.e'') = py ''a_b-c_d_e''
   \<and> length (sanitize_feature ascii_lib (py ''a b-c_d.e'')) = 9
   \<and> sanitize_feature ascii_lib [] = py ''feature''"
  using sanitize_feature_spec [of ascii_lib "py ''a b-c_d.e''"] sanitize_feature_spec [of ascii_lib "[]"]
  by (simp add: py_def ascii_lib_def ascii_isdigit_def ascii_isalpha_def)

section \<open>The grouping pass of the planner\<close>

lemma map_of_setdefault_append:
  "map_of (setdefault_append g k f) =
     (map_of g)(k \<mapsto> (case map_of g k of None \<Rightarrow> [f] | Some fs \<Rightarrow> fs @ [f]))"
  by (induction g k f rule: setdefault_append.induct) (auto simp: fun_eq_iff)

lemma keys_setdefault_append:
  "set (map fst (setdefault_append g k f)) = insert k (set (map fst g))"
  by (induction g k f rule: setdefault_append.induct) auto

lemma distinct_setdefault_append:
  "distinct (map fst g) \<Longrightarrow> distinct (map fst (setdefault_append g k f))"
proof (induction g k f rule: setdefault_append.induct)
  case (1 feat f)
  then show ?case by simp
next
  case (2 k fs rest feat f)
  then show ?case using keys_setdefault_append [of rest feat f] by auto
qed

lemma group_sizes_setdefault_append:
  "group_sizes (setdefault_append g k f) = group_sizes g + 1"
  by (induction g k f rule: setdefault_append.induct) (auto simp: group_sizes_def)

lemma scan_pdf_cases:
  "scan_pdf U S a f (g, n) =
     (case feature_key U S a f of None \<Rightarrow> (g, n + 1) | Some k \<Rightarrow> (setdefault_append g k f, n))"
  by (simp add: scan_pdf_def feature_key_def Let_def split: sum.splits prod.splits)

lemma fold_scan_total:
  "fold (scan_pdf U S a) pdfs (g, n) = (g', n') \<Longrightarrow>
     group_sizes g' + n' = group_sizes g + n + int (length pdfs)"
proof (induction pdfs arbitrary: g n)
  case Nil
  then show ?case by simp
next
  case (Cons f pdfs)
  show ?case
  proof (cases "feature_key U S a f")
    case None
    with Cons.prems have "fold (scan_pdf U S a) pdfs (g, n + 1) = (g', n')"
      by (simp add: scan_pdf_cases)
    from Cons.IH [OF this] show ?thesis by simp
  next
    case (Some k)
    with Cons.prems have "fold (scan_pdf U S a) pdfs (setdefault_append g k f, n) = (g', n')"
      by (simp add: scan_pdf_cases)
    from Cons.IH [OF this] show ?thesis by (simp add: group_sizes_setdefault_append)
  qed
qed

lemma fold_scan_skipped:
  "snd (fold (scan_pdf U S a) pdfs (g, n)) =
     n + int (length (filter (\<lambda>f. feature_key U S a f = None) pdfs))"
  by (induction pdfs arbitrary: g n) (auto simp: scan_pdf_cases split: option.splits)

lemma fold_scan_distinct:
  "distinct (map fst g) \<Longrightarrow> distinct (map fst (fst (fold (scan_pdf U S a) pdfs (g, n))))"
  by (induction pdfs arbitrary: g n)
     (auto simp: scan_pdf_cases distinct_setdefault_append split: option.splits)

lemma fold_scan_group:
  "map_of (fst (fold (scan_pdf U S a) pdfs (g, n))) k =
     (let new = filter (\<lambda>f. feature_key U S a f = Some k) pdfs
      in if new = [] then map_of g k
         else Some ((case map_of g k of None \<Rightarrow> [] | Some fs \<Rightarrow> fs) @ new))"
proof (induction pdfs arbitrary: g n)
  case Nil
  then show ?case by simp
next
  case (Cons f pdfs)
  show ?case
  proof (cases "feature_key U S a f")
    case None
    then show ?thesis using Cons.IH [of g "n + 1"] by (simp add: scan_pdf_cases)
  next
    case (Some k')
    then show ?thesis using Cons.IH [of "setdefault_append g k' f" n]
      by (auto simp add: scan_pdf_cases map_of_setdefault_append Let_def split: option.splits)
  qed
qed

text \<open>
  C3. The discovery loop partitions the discovered files. With \<open>feature_key\<close> the key
  that the extractor gives a file (\<open>None\<close> when it raises): the sizes of the groups and
  the skip counter add up to the number of files; the skip counter is the number of
  files on which the extractor raises; the dictionary has one entry for each key that
  occurs, and the group of a key is the list of the files with that key, in the order of
  discovery, so a file is in the group of its key as often as it was discovered and in
  no other group; a file on which the extractor raises is in no group.
\<close>

theorem scan_pdfs_partition:
  assumes "scan_pdfs U S a pdfs = (groups, skipped)"
  shows "group_sizes groups + skipped = int (length pdfs)
    \<and> skipped = int (length (filter (\<lambda>f. feature_key U S a f = None) pdfs))
    \<and> distinct (map fst groups)
    \<and> (\<forall>k. map_of groups k =
           (if \<exists>f \<in> set pdfs. feature_key U S a f = Some k
            then Some (filter (\<lambda>f. feature_key U S a f = Some k) pdfs) else None))
    \<and> (\<forall>f. feature_key U S a f = None \<longrightarrow> (\<forall>(k, fs) \<in> set groups. f \<notin> set fs))"
proof -
  have g: "groups = fst (fold (scan_pdf U S a) pdfs ([], 0))"
    and s: "skipped = snd (fold (scan_pdf U S a) pdfs ([], 0))"
    using assms by (simp_all add: scan_pdfs_def)
  have 1: "group_sizes groups + skipped = int (length pdfs)"
    using fold_scan_total [of U S a pdfs "[]" 0 groups skipped] assms
    by (simp add: scan_pdfs_def group_sizes_def)
  have 2: "skipped = int (length (filter (\<lambda>f. feature_key U S a f = None) pdfs))"
    unfolding s by (simp add: fold_scan_skipped)
  have 3: "distinct (map fst groups)"
    unfolding g by (rule fold_scan_distinct) simp
  have 4: "map_of groups k =
           (if \<exists>f \<in> set pdfs. feature_key U S a f = Some k
            then Some (filter (\<lambda>f. feature_key U S a f = Some k) pdfs) else None)" for k
    unfolding g by (simp add: fold_scan_group Let_def filter_empty_conv)
  have 5: "f \<notin> set fs" if "feature_key U S a f = None" "(k, fs) \<in> set groups" for f k fs
  proof -
    have "map_of groups k = Some fs" using 3 that(2) by simp
    then have "fs = filter (\<lambda>f. feature_key U S a f = Some k) pdfs"
      using 4 [of k] by (simp split: if_splits)
    then show ?thesis using that(1) by simp
  qed
  show ?thesis using 1 2 3 4 5 by blast
qed

theorem scan_pdfs_partition_witness:
  "scan_pdfs ascii_lib demo_os demo_args
       [py ''d/A1.pdf'', py ''d/7.pdf'', py ''d/A2.pdf'', py ''d/B1.pdf'']
     = ([(py ''A'', [py ''d/A1.pdf'', py ''d/A2.pdf'']), (py ''B'', [py ''d/B1.pdf''])], 1)
   \<and> group_sizes [(py ''A'', [py ''d/A1.pdf'', py ''d/A2.pdf'']), (py ''B'', [py ''d/B1.pdf''])] + 1
       = int (length [py ''d/A1.pdf'', py ''d/7.pdf'', py ''d/A2.pdf'', py ''d/B1.pdf''])
   \<and> feature_key ascii_lib demo_os demo_args (py ''d/7.pdf'') = None"
proof -
  have h: "scan_pdfs ascii_lib demo_os demo_args
       [py ''d/A1.pdf'', py ''d/7.pdf'', py ''d/A2.pdf'', py ''d/B1.pdf'']
     = ([(py ''A'', [py ''d/A1.pdf'', py ''d/A2.pdf'']), (py ''B'', [py ''d/B1.pdf''])], 1)"
    by code_simp
  have k: "feature_key ascii_lib demo_os demo_args (py ''d/7.pdf'') = None"
    by code_simp
  show ?thesis using h k scan_pdfs_partition [OF h] by simp
qed

section \<open>Properties of the image recompression\<close>

lemma recompress_xref_cases:
  assumes "recompress_xref F quality min_bytes only_if_smaller x (d, r) = (d', r')"
  shows "(d' = d \<and> r' = r) \<or>
     (\<exists>new. replacement_allowed F min_bytes only_if_smaller d x new
        \<and> doc_update_stream F d x new = Inr d' \<and> r' = r + 1)"
  using assms
  by (auto simp add: recompress_xref_def replacement_allowed_def py_len_def
      split: sum.splits if_splits option.splits)

lemma stream_updates_mono:
  "stream_updates F ok d ups d' \<Longrightarrow> (\<And>d x new. ok d x new \<Longrightarrow> ok' d x new) \<Longrightarrow>
     stream_updates F ok' d ups d'"
  by (induction rule: stream_updates.induct) (auto intro: stream_updates.intros)

lemma fold_recompress_updates:
  "fold (recompress_xref F quality min_bytes only_if_smaller) xs (d, r) = (d', r') \<Longrightarrow>
     \<exists>ups. stream_updates F (replacement_allowed F min_bytes only_if_smaller) d ups d'
        \<and> r' = r + int (length ups) \<and> subseq (map fst ups) xs"
proof (induction xs arbitrary: d r)
  case Nil
  then show ?case by (auto intro: stream_updates.no_update)
next
  case (Cons x xs)
  obtain d1 r1 where b: "recompress_xref F quality min_bytes only_if_smaller x (d, r) = (d1, r1)"
    by fastforce
  with Cons.prems have "fold (recompress_xref F quality min_bytes only_if_smaller) xs (d1, r1) = (d', r')"
    by simp
  from Cons.IH [OF this] obtain ups where
    u: "stream_updates F (replacement_allowed F min_bytes only_if_smaller) d1 ups d'"
      "r' = r1 + int (length ups)" "subseq (map fst ups) xs"
    by blast
  from recompress_xref_cases [OF b] show ?case
  proof
    assume "d1 = d \<and> r1 = r"
    with u show ?thesis by (auto intro: subseq_Cons')
  next
    assume "\<exists>new. replacement_allowed F min_bytes only_if_smaller d x new
        \<and> doc_update_stream F d x new = Inr d1 \<and> r1 = r + 1"
    then obtain new where n: "replacement_allowed F min_bytes only_if_smaller d x new"
      "doc_update_stream F d x new = Inr d1" "r1 = r + 1"
      by blast
    have "stream_updates F (replacement_allowed F min_bytes only_if_smaller) d ((x, new) # ups) d'"
      using n u by (auto intro: stream_updates.update)
    moreover have "r' = r + int (length ((x, new) # ups))" using n u by simp
    moreover have "subseq (map fst ((x, new) # ups)) (x # xs)" using u by simp
    ultimately show ?thesis by blast
  qed
qed


lemma recompress_images_in_doc_updates:
  "\<exists>ups. stream_updates F (replacement_allowed F (min_kb * 1024) only_if_smaller) doc ups
            (fst (recompress_images_in_doc F doc quality min_kb only_if_smaller))
      \<and> snd (recompress_images_in_doc F doc quality min_kb only_if_smaller) = int (length ups)
      \<and> subseq (map fst ups) [1 .. doc_xref_length F doc - 1]"
proof -
  obtain d' r' where
    f: "fold (recompress_xref F quality (min_kb * 1024) only_if_smaller)
          [1 .. doc_xref_length F doc - 1] (doc, 0) = (d', r')"
    by fastforce
  from fold_recompress_updates [OF f] show ?thesis
    using f by (simp add: recompress_images_in_doc_def Let_def)
qed

text \<open>
  C4. Every stream that \<open>recompress_images_in_doc\<close> replaces satisfies the size policy
  on the document as it is at that moment: the object has a stream of at least
  \<open>min_kb * 1024\<close> bytes and, with \<open>only_if_smaller\<close> set, the new stream is strictly
  shorter than it; the document returned is the result of these replacements and of
  nothing else, and the number returned is their number. In an iteration, an image
  whose stream is below the threshold is left alone; with the flag set, so is one whose
  JPEG is not strictly shorter than its stream; with the flag off, an image at or above
  the threshold that is read, decoded, converted and encoded without error is handed to
  \<open>update_stream\<close> whatever the size of the JPEG, and counts as replaced when that call
  succeeds.
\<close>

theorem recompress_size_policy:
  "(\<exists>ups. stream_updates F (replacement_allowed F (min_kb * 1024) only_if_smaller) doc ups
            (fst (recompress_images_in_doc F doc quality min_kb only_if_smaller))
       \<and> snd (recompress_images_in_doc F doc quality min_kb only_if_smaller) = int (length ups))
   \<and> (\<forall>d r x orig. doc_xref_stream F d x = Inr (Some orig) \<and> int (length orig) < min_kb * 1024 \<longrightarrow>
         recompress_xref F quality (min_kb * 1024) only_if_smaller x (d, r) = (d, r))
   \<and> (\<forall>d r x orig pix0 pix new.
         doc_xref_stream F d x = Inr (Some orig) \<and> fitz_Pixmap F d x = Inr pix0
         \<and> (if pix_n F pix0 \<ge> 5 then fitz_Pixmap_csRGB F pix0 else Inr pix0) = Inr pix
         \<and> pix_tobytes_jpeg F pix quality = Inr new
         \<and> \<not> length new < length orig \<longrightarrow>
         recompress_xref F quality (min_kb * 1024) True x (d, r) = (d, r))
   \<and> (\<forall>d r x t orig pix0 pix new.
         doc_xref_get_key F d x (py ''Subtype'') = Inr (t, py ''/Image'')
         \<and> doc_xref_stream F d x = Inr (Some orig) \<and> min_kb * 1024 \<le> int (length orig)
         \<and> fitz_Pixmap F d x = Inr pix0
         \<and> (if pix_n F pix0 \<ge> 5 then fitz_Pixmap_csRGB F pix0 else Inr pix0) = Inr pix
         \<and> pix_tobytes_jpeg F pix quality = Inr new \<longrightarrow>
         recompress_xref F quality (min_kb * 1024) False x (d, r)
           = (case doc_update_stream F d x new of Inl e \<Rightarrow> (d, r) | Inr d' \<Rightarrow> (d', r + 1)))"
proof -
  have a: "\<exists>ups. stream_updates F (replacement_allowed F (min_kb * 1024) only_if_smaller) doc ups
            (fst (recompress_images_in_doc F doc quality min_kb only_if_smaller))
       \<and> snd (recompress_images_in_doc F doc quality min_kb only_if_smaller) = int (length ups)"
    using recompress_images_in_doc_updates [of F min_kb only_if_smaller doc quality] by blast
  have b: "recompress_xref F quality (min_kb * 1024) only_if_smaller x (d, r) = (d, r)"
    if "doc_xref_stream F d x = Inr (Some orig)" "int (length orig) < min_kb * 1024"
    for d r x orig
    using that by (simp add: recompress_xref_def py_len_def split: sum.splits)
  have c: "recompress_xref F quality (min_kb * 1024) True x (d, r) = (d, r)"
    if "doc_xref_stream F d x = Inr (Some orig)" "fitz_Pixmap F d x = Inr pix0"
      "(if pix_n F pix0 \<ge> 5 then fitz_Pixmap_csRGB F pix0 else Inr pix0) = Inr pix"
      "pix_tobytes_jpeg F pix quality = Inr new" "\<not> length new < length orig"
    for d r x orig pix0 pix new
    using that by (simp add: recompress_xref_def py_len_def split: sum.splits)
  have d: "recompress_xref F quality (min_kb * 1024) False x (d, r)
           = (case doc_update_stream F d x new of Inl e \<Rightarrow> (d, r) | Inr d' \<Rightarrow> (d', r + 1))"
    if "doc_xref_get_key F d x (py ''Subtype'') = Inr (t, py ''/Image'')"
      "doc_xref_stream F d x = Inr (Some orig)" "min_kb * 1024 \<le> int (length orig)"
      "fitz_Pixmap F d x = Inr pix0"
      "(if pix_n F pix0 \<ge> 5 then fitz_Pixmap_csRGB F pix0 else Inr pix0) = Inr pix"
      "pix_tobytes_jpeg F pix quality = Inr new"
    for d r x t orig pix0 pix new
    using that by (simp add: recompress_xref_def py_len_def split: sum.splits)
  show ?thesis using a b c d by blast
qed

theorem recompress_size_policy_witness:
  "recompress_images_in_doc demo_fitz [[1,2,3,4],[0,9,9,9],[5]] 2 0 True
     = ([[1,2],[0,9,9,9],[5]], 1)
   \<and> (\<exists>ups. stream_updates demo_fitz (replacement_allowed demo_fitz (0 * 1024) True)
          [[1,2,3,4],[0,9,9,9],[5]] ups [[1,2],[0,9,9,9],[5]] \<and> length ups = 1)
   \<and> doc_xref_stream demo_fitz [[1,2,3,4],[0,9,9,9],[5]] 1 = Inr (Some [1,2,3,4])
   \<and> int (length [1,2,3,4::8 word]) < 1 * 1024
   \<and> recompress_xref demo_fitz 2 (1 * 1024) True 1 ([[1,2,3,4],[0,9,9,9],[5]], 0)
       = ([[1,2,3,4],[0,9,9,9],[5]], 0)
   \<and> pix_tobytes_jpeg demo_fitz [5] 2 = Inr [5]
   \<and> recompress_xref demo_fitz 2 (0 * 1024) True 3 ([[1,2,3,4],[0,9,9,9],[5]], 0)
       = ([[1,2,3,4],[0,9,9,9],[5]], 0)
   \<and> recompress_xref demo_fitz 2 (0 * 1024) False 3 ([[1,2,3,4],[0,9,9,9],[5]], 0)
       = ([[1,2,3,4],[0,9,9,9],[5]], 1)"
proof -
  let ?d = "[[1,2,3,4],[0,9,9,9],[5]] :: demo_doc"
  have e: "recompress_images_in_doc demo_fitz ?d 2 0 True = ([[1,2],[0,9,9,9],[5]], 1)"
    by code_simp
  have u: "\<exists>ups. stream_updates demo_fitz (replacement_allowed demo_fitz (0 * 1024) True)
          ?d ups [[1,2],[0,9,9,9],[5]] \<and> length ups = 1"
    using recompress_size_policy [of demo_fitz 0 True ?d 2] e by simp
  have s1: "doc_xref_stream demo_fitz ?d 1 = Inr (Some [1,2,3,4])" by code_simp
  have s3: "doc_xref_stream demo_fitz ?d 3 = Inr (Some [5])" by code_simp
  have k3: "doc_xref_get_key demo_fitz ?d 3 (py ''Subtype'') = Inr (py ''name'', py ''/Image'')"
    by code_simp
  have p3: "fitz_Pixmap demo_fitz ?d 3 = Inr [5]" by code_simp
  have c3: "(if pix_n demo_fitz [5] \<ge> 5 then fitz_Pixmap_csRGB demo_fitz [5] else Inr [5]) = Inr [5]"
    by code_simp
  have j3: "pix_tobytes_jpeg demo_fitz [5] 2 = Inr [5]" by code_simp
  have u3: "doc_update_stream demo_fitz ?d 3 [5] = Inr ?d" by code_simp
  have t: "recompress_xref demo_fitz 2 (1 * 1024) True 1 (?d, 0) = (?d, 0)"
    using recompress_size_policy [of demo_fitz 1 True ?d 2] s1 by simp
  have n: "recompress_xref demo_fitz 2 (0 * 1024) True 3 (?d, 0) = (?d, 0)"
    using recompress_size_policy [of demo_fitz 0 True ?d 2] s3 p3 c3 j3 by simp
  have "recompress_xref demo_fitz 2 (0 * 1024) False 3 (?d, 0)
          = (case doc_update_stream demo_fitz ?d 3 [5] of Inl e \<Rightarrow> (?d, 0) | Inr d' \<Rightarrow> (d', 0 + 1))"
    using recompress_size_policy [of demo_fitz 0 False ?d 2] k3 s3 p3 c3 j3 by simp
  then have f: "recompress_xref demo_fitz 2 (0 * 1024) False 3 (?d, 0) = (?d, 1)"
    using u3 by simp
  show ?thesis using e u s1 t j3 n f by simp
qed

text \<open>
  C5. \<open>recompress_images_in_doc\<close> always returns: the document it returns is the
  result of the successful calls of \<open>update_stream\<close>, made on xrefs of the range in
  increasing order, and the number it returns is the number of these calls. In an
  iteration, an exception from reading the subtype or the stream (or a stream that is
  \<open>None\<close>), from building the pixmap, from the conversion to RGB, from the JPEG encoding
  or from \<open>update_stream\<close> leaves the document and the counter as they were, and the
  loop then goes on with the remaining xrefs from that unchanged state.
\<close>

theorem recompress_failures_local:
  "(\<exists>ups. stream_updates F (\<lambda>d x new. True) doc ups
            (fst (recompress_images_in_doc F doc quality min_kb only_if_smaller))
       \<and> snd (recompress_images_in_doc F doc quality min_kb only_if_smaller) = int (length ups)
       \<and> subseq (map fst ups) [1 .. doc_xref_length F doc - 1])
   \<and> (\<forall>d r x. isl (doc_xref_get_key F d x (py ''Subtype''))
          \<or> isl (doc_xref_stream F d x) \<or> doc_xref_stream F d x = Inr None
          \<or> isl (fitz_Pixmap F d x)
          \<or> (\<exists>pix0. fitz_Pixmap F d x = Inr pix0 \<and> pix_n F pix0 \<ge> 5
                \<and> isl (fitz_Pixmap_csRGB F pix0))
          \<or> (\<exists>pix0 pix. fitz_Pixmap F d x = Inr pix0
                \<and> (if pix_n F pix0 \<ge> 5 then fitz_Pixmap_csRGB F pix0 else Inr pix0) = Inr pix
                \<and> (isl (pix_tobytes_jpeg F pix quality)
                    \<or> (\<exists>new. pix_tobytes_jpeg F pix quality = Inr new
                          \<and> isl (doc_update_stream F d x new))))
        \<longrightarrow> recompress_xref F quality (min_kb * 1024) only_if_smaller x (d, r) = (d, r))
   \<and> (\<forall>xs x ys. [1 .. doc_xref_length F doc - 1] = xs @ x # ys
          \<and> recompress_xref F quality (min_kb * 1024) only_if_smaller x
               (fold (recompress_xref F quality (min_kb * 1024) only_if_smaller) xs (doc, 0))
             = fold (recompress_xref F quality (min_kb * 1024) only_if_smaller) xs (doc, 0)
        \<longrightarrow> recompress_images_in_doc F doc quality min_kb only_if_smaller
             = fold (recompress_xref F quality (min_kb * 1024) only_if_smaller) ys
                 (fold (recompress_xref F quality (min_kb * 1024) only_if_smaller) xs (doc, 0)))"
proof -
  obtain ups where u:
    "stream_updates F (replacement_allowed F (min_kb * 1024) only_if_smaller) doc ups
            (fst (recompress_images_in_doc F doc quality min_kb only_if_smaller))"
    "snd (recompress_images_in_doc F doc quality min_kb only_if_smaller) = int (length ups)"
    "subseq (map fst ups) [1 .. doc_xref_length F doc - 1]"
    using recompress_images_in_doc_updates [of F min_kb only_if_smaller doc quality] by blast
  have "stream_updates F (\<lambda>d x new. True) doc ups
            (fst (recompress_images_in_doc F doc quality min_kb only_if_smaller))"
    using stream_updates_mono [OF u(1)] by simp
  with u have a: "\<exists>ups. stream_updates F (\<lambda>d x new. True) doc ups
            (fst (recompress_images_in_doc F doc quality min_kb only_if_smaller))
       \<and> snd (recompress_images_in_doc F doc quality min_kb only_if_smaller) = int (length ups)
       \<and> subseq (map fst ups) [1 .. doc_xref_length F doc - 1]"
    by blast
  have b: "\<forall>d r x. isl (doc_xref_get_key F d x (py ''Subtype''))
          \<or> isl (doc_xref_stream F d x) \<or> doc_xref_stream F d x = Inr None
          \<or> isl (fitz_Pixmap F d x)
          \<or> (\<exists>pix0. fitz_Pixmap F d x = Inr pix0 \<and> pix_n F pix0 \<ge> 5
                \<and> isl (fitz_Pixmap_csRGB F pix0))
          \<or> (\<exists>pix0 pix. fitz_Pixmap F d x = Inr pix0
                \<and> (if pix_n F pix0 \<ge> 5 then fitz_Pixmap_csRGB F pix0 else Inr pix0) = Inr pix
                \<and> (isl (pix_tobytes_jpeg F pix quality)
                    \<or> (\<exists>new. pix_tobytes_jpeg F pix quality = Inr new
                          \<and> isl (doc_update_stream F d x new))))
        \<longrightarrow> recompress_xref F quality (min_kb * 1024) only_if_smaller x (d, r) = (d, r)"
    by (auto simp add: recompress_xref_def py_len_def isl_def split: sum.splits option.splits)
  have c: "\<forall>xs x ys. [1 .. doc_xref_length F doc - 1] = xs @ x # ys
          \<and> recompress_xref F quality (min_kb * 1024) only_if_smaller x
               (fold (recompress_xref F quality (min_kb * 1024) only_if_smaller) xs (doc, 0))
             = fold (recompress_xref F quality (min_kb * 1024) only_if_smaller) xs (doc, 0)
        \<longrightarrow> recompress_images_in_doc F doc quality min_kb only_if_smaller
             = fold (recompress_xref F quality (min_kb * 1024) only_if_smaller) ys
                 (fold (recompress_xref F quality (min_kb * 1024) only_if_smaller) xs (doc, 0))"
    by (simp add: recompress_images_in_doc_def Let_def)
  show ?thesis using a b c by blast
qed

theorem recompress_failures_local_witness:
  "recompress_images_in_doc demo_fitz [[1,2,3,4],[0,9,9,9],[5,6,7]] 2 0 True
     = ([[1,2],[0,9,9,9],[5,6]], 2)
   \<and> (\<exists>ups. stream_updates demo_fitz (\<lambda>d x new. True) [[1,2,3,4],[0,9,9,9],[5,6,7]] ups
          [[1,2],[0,9,9,9],[5,6]] \<and> length ups = 2)
   \<and> isl (fitz_Pixmap demo_fitz [[1,2],[0,9,9,9],[5,6,7]] 2)
   \<and> recompress_xref demo_fitz 2 (0 * 1024) True 2 ([[1,2],[0,9,9,9],[5,6,7]], 1)
       = ([[1,2],[0,9,9,9],[5,6,7]], 1)
   \<and> recompress_images_in_doc demo_fitz [[1,2,3,4],[0,9,9,9],[5,6,7]] 2 0 True
       = fold (recompress_xref demo_fitz 2 (0 * 1024) True) [3]
           (fold (recompress_xref demo_fitz 2 (0 * 1024) True) [1] ([[1,2,3,4],[0,9,9,9],[5,6,7]], 0))"
proof -
  let ?d = "[[1,2,3,4],[0,9,9,9],[5,6,7]] :: demo_doc"
  let ?d1 = "[[1,2],[0,9,9,9],[5,6,7]] :: demo_doc"
  note t = recompress_failures_local [of demo_fitz ?d 2 0 True]
  have e: "recompress_images_in_doc demo_fitz ?d 2 0 True = ([[1,2],[0,9,9,9],[5,6]], 2)"
    by code_simp
  have u: "\<exists>ups. stream_updates demo_fitz (\<lambda>d x new. True) ?d ups [[1,2],[0,9,9,9],[5,6]]
             \<and> length ups = 2"
  proof -
    from t [THEN conjunct1] obtain ups where
      "stream_updates demo_fitz (\<lambda>d x new. True) ?d ups
         (fst (recompress_images_in_doc demo_fitz ?d 2 0 True))"
      "snd (recompress_images_in_doc demo_fitz ?d 2 0 True) = int (length ups)"
      by blast
    then show ?thesis using e by auto
  qed
  have p: "isl (fitz_Pixmap demo_fitz ?d1 2)" by code_simp
  have b: "recompress_xref demo_fitz 2 (0 * 1024) True 2 (?d1, 1) = (?d1, 1)"
    using t [THEN conjunct2, THEN conjunct1] p by blast
  have r: "[1 .. doc_xref_length demo_fitz ?d - 1] = [1] @ 2 # [3]" by code_simp
  have f: "fold (recompress_xref demo_fitz 2 (0 * 1024) True) [1] (?d, 0) = (?d1, 1)"
    by code_simp
  have c: "recompress_images_in_doc demo_fitz ?d 2 0 True
       = fold (recompress_xref demo_fitz 2 (0 * 1024) True) [3]
           (fold (recompress_xref demo_fitz 2 (0 * 1024) True) [1] (?d, 0))"
    using t [THEN conjunct2, THEN conjunct2] r b f by metis
  show ?thesis using e u p b c by simp
qed

section \<open>Properties of the merge and of the worker\<close>

text \<open>
  C1. \<open>unify_group\<close> merges the sources in the sorted order of their paths: the merge
  loop opens and appends the paths of \<open>sorted(source_paths)\<close> one after the other, which
  is the list of the given paths in ascending lexicographic order. Two lists of paths
  that are permutations of each other have the same sorted list, so the same documents
  are appended in the same order and \<open>unify_group\<close> has the same result, for every
  destination, optimization level and image parameters.
\<close>

theorem unify_group_sorted_order:
  "sorted (sort source_paths) \<and> mset (sort source_paths) = mset source_paths
   \<and> unify_group S F w dest_pdf source_paths optimize jpeg_recompress jpeg_quality jpeg_min_kb
         jpeg_only_if_smaller
       = (case insert_sources F w (fitz_open_empty F) (sort source_paths) of
            Inl e \<Rightarrow> Raised e w
          | Inr merged \<Rightarrow> save_merged S F w dest_pdf optimize jpeg_recompress jpeg_quality
                            jpeg_min_kb jpeg_only_if_smaller merged)
   \<and> (\<forall>shuffled. mset shuffled = mset source_paths \<longrightarrow>
         sort shuffled = sort source_paths
         \<and> unify_group S F w dest_pdf shuffled optimize jpeg_recompress jpeg_quality jpeg_min_kb
               jpeg_only_if_smaller
             = unify_group S F w dest_pdf source_paths optimize jpeg_recompress jpeg_quality
                 jpeg_min_kb jpeg_only_if_smaller)"
proof -
  have p: "sort shuffled = sort source_paths" if "mset shuffled = mset source_paths" for shuffled
    by (rule properties_for_sort) (simp_all add: that)
  have a: "sorted (sort source_paths) \<and> mset (sort source_paths) = mset source_paths"
    by simp
  have b: "unify_group S F w dest_pdf source_paths optimize jpeg_recompress jpeg_quality jpeg_min_kb
         jpeg_only_if_smaller
       = (case insert_sources F w (fitz_open_empty F) (sort source_paths) of
            Inl e \<Rightarrow> Raised e w
          | Inr merged \<Rightarrow> save_merged S F w dest_pdf optimize jpeg_recompress jpeg_quality
                            jpeg_min_kb jpeg_only_if_smaller merged)"
    by (simp add: unify_group_def)
  have c: "\<forall>shuffled. mset shuffled = mset source_paths \<longrightarrow>
         sort shuffled = sort source_paths
         \<and> unify_group S F w dest_pdf shuffled optimize jpeg_recompress jpeg_quality jpeg_min_kb
               jpeg_only_if_smaller
             = unify_group S F w dest_pdf source_paths optimize jpeg_recompress jpeg_quality
                 jpeg_min_kb jpeg_only_if_smaller"
  proof (intro allI impI)
    fix shuffled :: "pystr list"
    assume "mset shuffled = mset source_paths"
    then have "sort shuffled = sort source_paths" by (rule p)
    then show "sort shuffled = sort source_paths
         \<and> unify_group S F w dest_pdf shuffled optimize jpeg_recompress jpeg_quality jpeg_min_kb
               jpeg_only_if_smaller
             = unify_group S F w dest_pdf source_paths optimize jpeg_recompress jpeg_quality
                 jpeg_min_kb jpeg_only_if_smaller"
      by (simp add: unify_group_def)
  qed
  from a b c show ?thesis by blast
qed

theorem unify_group_sorted_order_witness:
  "mset [py ''d/b1.pdf'', py ''d/a2.pdf'', py ''d/a1.pdf'']
     = mset [py ''d/a1.pdf'', py ''d/b1.pdf'', py ''d/a2.pdf'']
   \<and> sort [py ''d/b1.pdf'', py ''d/a2.pdf'', py ''d/a1.pdf'']
       = [py ''d/a1.pdf'', py ''d/a2.pdf'', py ''d/b1.pdf'']
   \<and> insert_sources demo_fitz demo_world0 (fitz_open_empty demo_fitz)
         [py ''d/a1.pdf'', py ''d/a2.pdf'', py ''d/b1.pdf''] = Inr [[1, 1, 1], [3], [2, 2]]
   \<and> unify_group demo_os demo_fitz demo_world0 (py ''d/out/m.pdf'')
         [py ''d/b1.pdf'', py ''d/a2.pdf'', py ''d/a1.pdf''] (py ''none'') False 2 0 True
       = Returned ((py ''d/out/m.pdf'', Some [[1, 1, 1], [3], [2, 2]]) # fst demo_world0,
                   [py ''d/out''])
   \<and> unify_group demo_os demo_fitz demo_world0 (py ''d/out/m.pdf'')
         [py ''d/a1.pdf'', py ''d/b1.pdf'', py ''d/a2.pdf''] (py ''none'') False 2 0 True
       = Returned ((py ''d/out/m.pdf'', Some [[1, 1, 1], [3], [2, 2]]) # fst demo_world0,
                   [py ''d/out''])"
proof -
  let ?ps = "[py ''d/b1.pdf'', py ''d/a2.pdf'', py ''d/a1.pdf'']"
  let ?qs = "[py ''d/a1.pdf'', py ''d/b1.pdf'', py ''d/a2.pdf'']"
  note t = unify_group_sorted_order [of ?ps demo_os demo_fitz demo_world0 "py ''d/out/m.pdf''"
      "py ''none''" False 2 0 True]
  have m: "mset ?qs = mset ?ps" by (simp add: py_def)
  have s: "sort ?ps = [py ''d/a1.pdf'', py ''d/a2.pdf'', py ''d/b1.pdf'']" by code_simp
  have i: "insert_sources demo_fitz demo_world0 (fitz_open_empty demo_fitz)
         [py ''d/a1.pdf'', py ''d/a2.pdf'', py ''d/b1.pdf''] = Inr [[1, 1, 1], [3], [2, 2]]"
    by code_simp
  have u: "unify_group demo_os demo_fitz demo_world0 (py ''d/out/m.pdf'') ?ps (py ''none'') False 2 0 True
       = Returned ((py ''d/out/m.pdf'', Some [[1, 1, 1], [3], [2, 2]]) # fst demo_world0,
                   [py ''d/out''])"
    by code_simp
  have "unify_group demo_os demo_fitz demo_world0 (py ''d/out/m.pdf'') ?qs (py ''none'') False 2 0 True
     = unify_group demo_os demo_fitz demo_world0 (py ''d/out/m.pdf'') ?ps (py ''none'') False 2 0 True"
    using t m by blast
  then show ?thesis using m s i u by simp
qed

text \<open>
  C7. \<open>worker_unify\<close> always returns a triple whose first component is the feature key
  and whose second is the number of paths it was given. When \<open>unify_group\<close> returns,
  the status is \<open>OK\<close>; when \<open>unify_group\<close> raises the exception \<open>e\<close>, the status is
  \<open>ERROR: \<close> followed by the message of \<open>e\<close>, which is never \<open>OK\<close>.
\<close>

theorem worker_unify_result:
  "fst (fst (worker_unify U S F w out_dir feat paths optimize jpeg_recompress jpeg_quality
              jpeg_min_kb jpeg_only_if_smaller)) = feat
   \<and> fst (snd (fst (worker_unify U S F w out_dir feat paths optimize jpeg_recompress jpeg_quality
              jpeg_min_kb jpeg_only_if_smaller))) = int (length paths)
   \<and> (\<forall>w'. unify_group S F w (os_path_join S out_dir (sanitize_feature U feat @ py ''.pdf''))
              paths optimize jpeg_recompress jpeg_quality jpeg_min_kb jpeg_only_if_smaller
            = Returned w' \<longrightarrow>
          worker_unify U S F w out_dir feat paths optimize jpeg_recompress jpeg_quality
              jpeg_min_kb jpeg_only_if_smaller
            = ((feat, int (length paths), py ''OK''), w'))
   \<and> (\<forall>e w'. unify_group S F w (os_path_join S out_dir (sanitize_feature U feat @ py ''.pdf''))
              paths optimize jpeg_recompress jpeg_quality jpeg_min_kb jpeg_only_if_smaller
            = Raised e w' \<longrightarrow>
          worker_unify U S F w out_dir feat paths optimize jpeg_recompress jpeg_quality
              jpeg_min_kb jpeg_only_if_smaller
            = ((feat, int (length paths), py ''ERROR: '' @ str_of_exn e), w')
          \<and> py ''ERROR: '' @ str_of_exn e \<noteq> py ''OK'')"
  by (auto simp add: worker_unify_def Let_def py_def split: outcome.splits)

theorem worker_unify_result_witness:
  "unify_group demo_os demo_fitz demo_world0
       (os_path_join demo_os (py ''d/out'') (sanitize_feature ascii_lib (py ''x'') @ py ''.pdf''))
       [py ''d/x9.pdf''] (py ''none'') True 2 0 True
     = Raised (LibError (py ''cannot open'')) demo_world0
   \<and> worker_unify ascii_lib demo_os demo_fitz demo_world0 (py ''d/out'') (py ''x'')
       [py ''d/x9.pdf''] (py ''none'') True 2 0 True
     = ((py ''x'', 1, py ''ERROR: cannot open''), demo_world0)
   \<and> unify_group demo_os demo_fitz demo_world0
       (os_path_join demo_os (py ''d/out'') (sanitize_feature ascii_lib (py ''b'') @ py ''.pdf''))
       [py ''d/b1.pdf''] (py ''none'') True 2 0 True
     = Returned ((py ''d/out/b.pdf'', Some [[2, 2]]) # fst demo_world0, [py ''d/out''])
   \<and> worker_unify ascii_lib demo_os demo_fitz demo_world0 (py ''d/out'') (py ''b'')
       [py ''d/b1.pdf''] (py ''none'') True 2 0 True
     = ((py ''b'', 1, py ''OK''), ((py ''d/out/b.pdf'', Some [[2, 2]]) # fst demo_world0, [py ''d/out'']))"
proof -
  note tx = worker_unify_result [of ascii_lib demo_os demo_fitz demo_world0 "py ''d/out''" "py ''x''"
      "[py ''d/x9.pdf'']" "py ''none''" True 2 0 True]
  note tb = worker_unify_result [of ascii_lib demo_os demo_fitz demo_world0 "py ''d/out''" "py ''b''"
      "[py ''d/b1.pdf'']" "py ''none''" True 2 0 True]
  have x: "unify_group demo_os demo_fitz demo_world0
       (os_path_join demo_os (py ''d/out'') (sanitize_feature ascii_lib (py ''x'') @ py ''.pdf''))
       [py ''d/x9.pdf''] (py ''none'') True 2 0 True
     = Raised (LibError (py ''cannot open'')) demo_world0"
    by code_simp
  have b: "unify_group demo_os demo_fitz demo_world0
       (os_path_join demo_os (py ''d/out'') (sanitize_feature ascii_lib (py ''b'') @ py ''.pdf''))
       [py ''d/b1.pdf''] (py ''none'') True 2 0 True
     = Returned ((py ''d/out/b.pdf'', Some [[2, 2]]) # fst demo_world0, [py ''d/out''])"
    by code_simp
  have wx: "worker_unify ascii_lib demo_os demo_fitz demo_world0 (py ''d/out'') (py ''x'')
       [py ''d/x9.pdf''] (py ''none'') True 2 0 True
     = ((py ''x'', 1, py ''ERROR: '' @ str_of_exn (LibError (py ''cannot open''))), demo_world0)"
    using tx x by simp
  have wb: "worker_unify ascii_lib demo_os demo_fitz demo_world0 (py ''d/out'') (py ''b'')
       [py ''d/b1.pdf''] (py ''none'') True 2 0 True
     = ((py ''b'', 1, py ''OK''), ((py ''d/out/b.pdf'', Some [[2, 2]]) # fst demo_world0, [py ''d/out'']))"
    using tb b by simp
  show ?thesis using x b wx wb by (simp add: py_def)
qed

section \<open>Properties of the confirmation prompt and of the scheduler\<close>

lemma ascii_lower_affirmative:
  "str_lower ascii_lib r \<in> {py ''s'', py ''y''} \<longleftrightarrow> r \<in> {py ''s'', py ''S'', py ''y'', py ''Y''}"
proof (cases r)
  case Nil
  then show ?thesis by (simp add: ascii_lib_def py_def)
next
  case (Cons c cs)
  then show ?thesis by (cases cs) (auto simp add: ascii_lib_def py_def)
qed

text \<open>
  C6. A run that reaches the prompt (the directory lists at least one PDF) and is answered
  with a line whose stripped and lowercased form is neither \<open>s\<close> nor \<open>y\<close> ends with
  exit status 0, with the file system as it was at the start, and has printed the plan
  and the cancellation only: the output directory is not created and no worker runs. A
  line whose stripped and lowercased form is \<open>s\<close> or \<open>y\<close> goes on to the second stage;
  with the ASCII \<open>lower\<close> and \<open>strip\<close> these are the lines that are \<open>s\<close>, \<open>S\<close>,
  \<open>y\<close> or \<open>Y\<close> once stripped.
\<close>

theorem main_declined_no_effects:
  assumes "list_pdfs_flat U S w (os_path_abspath S w (arg_target_dir a)) = Inr pdfs"
    and "pdfs \<noteq> []"
    and "scan_pdfs U S a pdfs = (groups, skipped)"
    and "printed = [Plan (str_join (py '','')
                      (map (\<lambda>feat. sanitize_feature U feat @ py ''.pdf'') (sort (map fst groups))))
                    (int (length groups)) (int (length groups)) skipped]"
  shows "(str_lower U (str_strip U typed) \<notin> {py ''s'', py ''y''} \<longrightarrow>
            main U S F completed a typed w = Finished 0 w (printed @ [Cancelled]))
       \<and> (str_lower U (str_strip U typed) \<in> {py ''s'', py ''y''} \<longrightarrow>
            main U S F completed a typed w
              = main_stage2 U S F completed a
                  (os_path_join S (os_path_abspath S w (arg_target_dir a)) (arg_out_dir_name a))
                  groups printed w)
       \<and> (str_lower ascii_lib (str_strip ascii_lib typed) \<in> {py ''s'', py ''y''}
            \<longleftrightarrow> str_strip ascii_lib typed \<in> {py ''s'', py ''S'', py ''y'', py ''Y''})"
  using assms ascii_lower_affirmative [of "str_strip ascii_lib typed"]
  by (simp add: main_def Let_def)


theorem main_declined_no_effects_witness:
  "list_pdfs_flat ascii_lib demo_os demo_world0 (py ''d'')
     = Inr [py ''d/7.pdf'', py ''d/a1.pdf'', py ''d/a2.pdf'', py ''d/b1.pdf'', py ''d/x9.pdf'']
   \<and> scan_pdfs ascii_lib demo_os demo_args
         [py ''d/7.pdf'', py ''d/a1.pdf'', py ''d/a2.pdf'', py ''d/b1.pdf'', py ''d/x9.pdf'']
       = ([(py ''a'', [py ''d/a1.pdf'', py ''d/a2.pdf'']), (py ''b'', [py ''d/b1.pdf'']),
           (py ''x'', [py ''d/x9.pdf''])], 1)
   \<and> str_lower ascii_lib (str_strip ascii_lib (py '' no '')) \<notin> {py ''s'', py ''y''}
   \<and> main ascii_lib demo_os demo_fitz id demo_args (py '' no '') demo_world0
       = Finished 0 demo_world0 [Plan (py ''a.pdf,b.pdf,x.pdf'') 3 3 1, Cancelled]
   \<and> str_lower ascii_lib (str_strip ascii_lib (py '' S '')) \<in> {py ''s'', py ''y''}
   \<and> world (main ascii_lib demo_os demo_fitz id demo_args (py '' S '') demo_world0)
       = ([(py ''d/out/b.pdf'', Some [[2, 2]]), (py ''d/out/a.pdf'', Some [[1, 1], [3]])]
            @ fst demo_world0, [py ''d/out''])"
proof -
  let ?pdfs = "[py ''d/7.pdf'', py ''d/a1.pdf'', py ''d/a2.pdf'', py ''d/b1.pdf'', py ''d/x9.pdf'']"
  let ?groups = "[(py ''a'', [py ''d/a1.pdf'', py ''d/a2.pdf'']), (py ''b'', [py ''d/b1.pdf'']),
           (py ''x'', [py ''d/x9.pdf''])]"
  let ?printed = "[Plan (str_join (py '','')
                      (map (\<lambda>feat. sanitize_feature ascii_lib feat @ py ''.pdf'')
                         (sort (map fst ?groups))))
                    (int (length ?groups)) (int (length ?groups)) 1]"
  have l: "list_pdfs_flat ascii_lib demo_os demo_world0
             (os_path_abspath demo_os demo_world0 (arg_target_dir demo_args)) = Inr ?pdfs"
    by code_simp
  have l': "list_pdfs_flat ascii_lib demo_os demo_world0 (py ''d'') = Inr ?pdfs"
    by code_simp
  have n: "?pdfs \<noteq> []" by simp
  have g: "scan_pdfs ascii_lib demo_os demo_args ?pdfs = (?groups, 1)" by code_simp
  note t = main_declined_no_effects [OF l n g refl, of _ demo_fitz id]
  have no: "str_lower ascii_lib (str_strip ascii_lib (py '' no '')) \<notin> {py ''s'', py ''y''}"
    by code_simp
  have yes: "str_lower ascii_lib (str_strip ascii_lib (py '' S '')) \<in> {py ''s'', py ''y''}"
    by code_simp
  have p: "?printed = [Plan (py ''a.pdf,b.pdf,x.pdf'') 3 3 1]" by code_simp
  have d: "main ascii_lib demo_os demo_fitz id demo_args (py '' no '') demo_world0
       = Finished 0 demo_world0 (?printed @ [Cancelled])"
    using t [of "py '' no ''"] no by blast
  have "main ascii_lib demo_os demo_fitz id demo_args (py '' S '') demo_world0
       = main_stage2 ascii_lib demo_os demo_fitz id demo_args
           (os_path_join demo_os (os_path_abspath demo_os demo_world0 (arg_target_dir demo_args))
              (arg_out_dir_name demo_args)) ?groups ?printed demo_world0"
    using t [of "py '' S ''"] yes by blast
  moreover have "world (main_stage2 ascii_lib demo_os demo_fitz id demo_args
           (os_path_join demo_os (os_path_abspath demo_os demo_world0 (arg_target_dir demo_args))
              (arg_out_dir_name demo_args)) ?groups ?printed demo_world0)
       = ([(py ''d/out/b.pdf'', Some [[2, 2]]), (py ''d/out/a.pdf'', Some [[1, 1], [3]])]
            @ fst demo_world0, [py ''d/out''])"
    by code_simp
  ultimately have e: "world (main ascii_lib demo_os demo_fitz id demo_args (py '' S '') demo_world0)
       = ([(py ''d/out/b.pdf'', Some [[2, 2]]), (py ''d/out/a.pdf'', Some [[1, 1], [3]])]
            @ fst demo_world0, [py ''d/out''])"
    by simp
  show ?thesis using l' g no yes d p e by simp
qed

lemma serial_loop_prints_ok_only:
  "serial_loop U S F a out_dir groups w feats = (raised, w', lines) \<Longrightarrow>
     \<forall>l \<in> set lines. \<exists>feat n. l = Ok_line feat n"
proof (induction feats arbitrary: w raised w' lines)
  case Nil
  then show ?case by simp
next
  case (Cons feat feats)
  then show ?case
    by (auto simp add: Let_def split: sum.splits prod.splits)
qed

text \<open>
  C8. In serial mode the report of a group does not follow the status that its worker
  returned. In the directory of \<open>demo_world0\<close> the group \<open>x\<close> consists of a file that
  cannot be opened, and its worker returns the status \<open>ERROR: cannot open\<close>; the serial
  run answered with \<open>s\<close> prints the \<open>[OK]\<close> line for \<open>x\<close>, while the same run through
  the pool prints the \<open>[WARN]\<close> line with that status.
\<close>

theorem serial_mode_reports_ok_for_failed_group:
  "fst (worker_unify ascii_lib demo_os demo_fitz (fst demo_world0, [py ''d/out'']) (py ''d/out'')
          (py ''x'') [py ''d/x9.pdf''] (py ''light'') True 2 0 True)
     = (py ''x'', 1, py ''ERROR: cannot open'')
   \<and> main ascii_lib demo_os demo_fitz id demo_args (py ''s'') demo_world0
     = Finished 0
         ([(py ''d/out/b.pdf'', Some [[2, 2]]), (py ''d/out/a.pdf'', Some [[1, 1], [3]])]
            @ fst demo_world0, [py ''d/out''])
         [Plan (py ''a.pdf,b.pdf,x.pdf'') 3 3 1,
          Ok_line (py ''a'') 2, Ok_line (py ''b'') 1, Ok_line (py ''x'') 1, Fin 3]
   \<and> console (main ascii_lib demo_os demo_fitz id (demo_args\<lparr>arg_serial := False\<rparr>) (py ''s'')
                demo_world0)
     = [Plan (py ''a.pdf,b.pdf,x.pdf'') 3 3 1,
        Ok_line (py ''a'') 2, Ok_line (py ''b'') 1,
        Warn_line (py ''x'') 1 (py ''ERROR: cannot open''), Fin 3]"
  by code_simp

end
